theory Spec2Isabelle
  imports Main
begin

unbundle bit_operations_syntax

section \<open>Characters and the two character classes of the line pattern\<close>

text \<open>
  The scripts are Python 3 and work on \<open>str\<close> values. A character of the model is a
  code point below 256; \<open>code\<close> reads it. The pattern of
  \<open>extract_macro_parameters\<close> is a \<open>str\<close> pattern without flags, so \<open>\w\<close> is
  every character for which \<open>str.isalnum\<close> holds, and the underscore, and \<open>\s\<close> is
  every character for which \<open>str.isspace\<close> holds. Both classes are written out for
  the code points the model has.
\<close>

definition code :: "char \<Rightarrow> nat" where
  "code c = of_char c"

definition isalnum :: "char \<Rightarrow> bool" where
  "isalnum c \<longleftrightarrow>
     (let n = code c in
        (0x30 \<le> n \<and> n \<le> 0x39) \<or> (0x41 \<le> n \<and> n \<le> 0x5A) \<or> (0x61 \<le> n \<and> n \<le> 0x7A) \<or>
        n = 0xAA \<or> (0xB2 \<le> n \<and> n \<le> 0xB3) \<or> n = 0xB5 \<or> (0xB9 \<le> n \<and> n \<le> 0xBA) \<or>
        (0xBC \<le> n \<and> n \<le> 0xBE) \<or> (0xC0 \<le> n \<and> n \<le> 0xD6) \<or> (0xD8 \<le> n \<and> n \<le> 0xF6) \<or>
        (0xF8 \<le> n \<and> n \<le> 0xFF))"

text \<open>
  The parts of \<open>str.isalnum\<close>: a character is alphanumeric if \<open>str.isalpha\<close>,
  \<open>str.isdecimal\<close>, \<open>str.isdigit\<close> or \<open>str.isnumeric\<close> holds for it. Below 256
  the decimal characters are \<open>0\<close> to \<open>9\<close>, the digits are these and the superscripts
  one, two and three, and the numeric characters are the digits and the fractions one
  quarter, one half and three quarters.
\<close>

definition isalpha :: "char \<Rightarrow> bool" where
  "isalpha c \<longleftrightarrow>
     (let n = code c in
        (0x41 \<le> n \<and> n \<le> 0x5A) \<or> (0x61 \<le> n \<and> n \<le> 0x7A) \<or>
        n = 0xAA \<or> n = 0xB5 \<or> n = 0xBA \<or>
        (0xC0 \<le> n \<and> n \<le> 0xD6) \<or> (0xD8 \<le> n \<and> n \<le> 0xF6) \<or>
        (0xF8 \<le> n \<and> n \<le> 0xFF))"

definition isdecimal :: "char \<Rightarrow> bool" where
  "isdecimal c \<longleftrightarrow> (let n = code c in 0x30 \<le> n \<and> n \<le> 0x39)"

definition isdigit :: "char \<Rightarrow> bool" where
  "isdigit c \<longleftrightarrow>
     (let n = code c in (0x30 \<le> n \<and> n \<le> 0x39) \<or> (0xB2 \<le> n \<and> n \<le> 0xB3) \<or> n = 0xB9)"

definition isnumeric :: "char \<Rightarrow> bool" where
  "isnumeric c \<longleftrightarrow>
     (let n = code c in
        (0x30 \<le> n \<and> n \<le> 0x39) \<or> (0xB2 \<le> n \<and> n \<le> 0xB3) \<or> n = 0xB9 \<or>
        (0xBC \<le> n \<and> n \<le> 0xBE))"

definition isspace :: "char \<Rightarrow> bool" where
  "isspace c \<longleftrightarrow>
     (let n = code c in
        (0x09 \<le> n \<and> n \<le> 0x0D) \<or> (0x1C \<le> n \<and> n \<le> 0x20) \<or> n = 0x85 \<or> n = 0xA0)"

definition is_word :: "char \<Rightarrow> bool" where
  "is_word c \<longleftrightarrow> isalnum c \<or> c = CHR ''_''"

definition is_space :: "char \<Rightarrow> bool" where
  "is_space c \<longleftrightarrow> isspace c"

section \<open>The line pattern\<close>

text \<open>
  \<open>re.match\<close> tries the pattern at the start of the string only and does not ask that
  the string ends where the match ends. The pattern of both generators is
  \<open>MACRO!\((\w+),\s*(\w+)\);\<close> with \<open>MACRO\<close> the literal \<open>X_REG0\<close> or
  \<open>X_REG1\<close>. \<open>literal\<close> matches literal text at the current position and returns
  what follows it.
\<close>

fun literal :: "string \<Rightarrow> string \<Rightarrow> string option" where
  "literal [] s = Some s"
| "literal (p # ps) [] = None"
| "literal (p # ps) (c # cs) = (if p = c then literal ps cs else None)"

text \<open>
  Each repetition of the pattern is greedy and is followed by a character outside its
  class, so the first match the engine finds takes the longest run; \<open>re_match\<close> scans
  that way and returns the two groups. \<open>pattern_matches\<close> is the meaning of the pattern
  as a set of strings: some split of the line into the literal parts, the two groups and
  the white space. The lemmas \<open>re_match_sound\<close> and \<open>re_match_complete\<close> below
  show that the scan finds a match whenever any split exists, and that the groups of every
  split are the ones it returns.
\<close>

definition re_match :: "string \<Rightarrow> string \<Rightarrow> (string \<times> string) option" where
  "re_match macro input_str =
     (case literal (macro @ ''!('') input_str of
        None \<Rightarrow> None
      | Some r1 \<Rightarrow>
          if takeWhile is_word r1 = [] then None
          else (case literal '','' (dropWhile is_word r1) of
                  None \<Rightarrow> None
                | Some r2 \<Rightarrow>
                    if takeWhile is_word (dropWhile is_space r2) = [] then None
                    else (case literal '');'' (dropWhile is_word (dropWhile is_space r2)) of
                            None \<Rightarrow> None
                          | Some r3 \<Rightarrow>
                              Some (takeWhile is_word r1,
                                    takeWhile is_word (dropWhile is_space r2)))))"

definition pattern_matches :: "string \<Rightarrow> string \<Rightarrow> string \<Rightarrow> string \<Rightarrow> bool" where
  "pattern_matches macro input_str g1 g2 \<longleftrightarrow>
     (\<exists>ws rest.
        input_str = macro @ ''!('' @ g1 @ '','' @ ws @ g2 @ '');'' @ rest \<and>
        g1 \<noteq> [] \<and> list_all is_word g1 \<and> list_all is_space ws \<and>
        g2 \<noteq> [] \<and> list_all is_word g2)"

section \<open>The generators\<close>

datatype error = ValueError string

definition extract_macro_parameters_xreg0 :: "string \<Rightarrow> error + string \<times> string" where
  "extract_macro_parameters_xreg0 input_str =
     (case re_match ''X_REG0'' input_str of
        Some (reg_name, reg_addr) \<Rightarrow> Inr (reg_name, reg_addr)
      | None \<Rightarrow> Inl (ValueError ''Input string does not match the expected format.''))"

definition extract_macro_parameters_xreg1 :: "string \<Rightarrow> error + string \<times> string" where
  "extract_macro_parameters_xreg1 input_str =
     (case re_match ''X_REG1'' input_str of
        Some (reg_name, reg_addr) \<Rightarrow> Inr (reg_name, reg_addr)
      | None \<Rightarrow> Inl (ValueError ''Input string does not match the expected format.''))"

text \<open>
  \<open>generate_code\<close> returns an f-string: the literal text with the two arguments put in
  at the places of \<open>{reg_name}\<close> and \<open>{reg_addr}\<close>. The text starts after the escaped
  line break that follows the opening quotes and ends with a line break.
\<close>

definition generate_code_xreg0 :: "string \<Rightarrow> string \<Rightarrow> string" where
  "generate_code_xreg0 reg_name reg_addr =
     ''bitflags! {\<newline>'' @
     ''    struct '' @ reg_name @ '': u32 {\<newline>'' @
     ''        const PULL_MASK = genmask!(9, 8);\<newline>'' @
     ''        const DRIVE_MASK = genmask!(7, 4);\<newline>'' @
     ''        const FUNC_MASK = genmask!(2, 0);\<newline>'' @
     ''        const FUNC_BIT0 = 1 << 0;\<newline>'' @
     ''        const FUNC_BIT1 = 1 << 1;\<newline>'' @
     ''        const FUNC_BIT2 = 1 << 2;\<newline>'' @
     ''        const DRIVE_BIT0 = 1 << 4;\<newline>'' @
     ''        const DRIVE_BIT1 = 1 << 5;\<newline>'' @
     ''        const DRIVE_BIT2 = 1 << 6;\<newline>'' @
     ''        const DRIVE_BIT3 = 1 << 7;\<newline>'' @
     ''        const PULL_BIT0 = 1 << 8;\<newline>'' @
     ''        const PULL_BIT1 = 1 << 9;\<newline>'' @
     ''    }\<newline>'' @
     ''}\<newline>'' @
     ''\<newline>'' @
     ''impl FlagReg for '' @ reg_name @ '' {\<newline>'' @
     ''    const REG: u32 = '' @ reg_addr @ '';\<newline>'' @
     ''}\<newline>'' @
     ''\<newline>'' @
     ''impl From<u32> for '' @ reg_name @ '' {\<newline>'' @
     ''    fn from(x: u32) -> Self {\<newline>'' @
     ''        Self::from_bits_truncate(x)\<newline>'' @
     ''    }\<newline>'' @
     ''}\<newline>'' @
     ''\<newline>'' @
     ''impl Into<u32> for '' @ reg_name @ '' {\<newline>'' @
     ''    fn into(self) -> u32 {\<newline>'' @
     ''        self.bits()\<newline>'' @
     ''    }\<newline>'' @
     ''}\<newline>'' @
     ''\<newline>'' @
     ''impl XReg0 for '' @ reg_name @ '' {\<newline>'' @
     ''\<newline>'' @
     ''}\<newline>''"

definition generate_code_xreg1 :: "string \<Rightarrow> string \<Rightarrow> string" where
  "generate_code_xreg1 reg_name reg_addr =
     ''bitflags! {\<newline>'' @
     ''    struct '' @ reg_name @ '': u32 {\<newline>'' @
     ''        const OUT_DELAY_EN = 1 << 8;\<newline>'' @
     ''        const OUT_DELAY_DELICATE_MASK = genmask!(11,9);\<newline>'' @
     ''        const OUT_DELAY_DELICATE_BIT0 = 1 << 9;\<newline>'' @
     ''        const OUT_DELAY_DELICATE_BIT1 = 1 << 10;\<newline>'' @
     ''        const OUT_DELAY_DELICATE_BIT2 = 1 << 11;\<newline>'' @
     ''        const OUT_DELAY_ROUGH_MASK = genmask!(14,12);\<newline>'' @
     ''        const OUT_DELAY_ROUGH_BIT0 = 1 << 12;\<newline>'' @
     ''        const OUT_DELAY_ROUGH_BIT1 = 1 << 13;\<newline>'' @
     ''        const OUT_DELAY_ROUGH_BIT2 = 1 << 14;\<newline>'' @
     ''        const IN_DELAY_EN = 1 << 0;\<newline>'' @
     ''        const IN_DELAY_DELICATE_MASK = genmask!(3,1);\<newline>'' @
     ''        const IN_DELAY_DELICATE_BIT0 = 1 << 1;\<newline>'' @
     ''        const IN_DELAY_DELICATE_BIT1 = 1 << 2;\<newline>'' @
     ''        const IN_DELAY_DELICATE_BIT2 = 1 << 3;\<newline>'' @
     ''        const IN_DELAY_ROUGH_MASK = genmask!(6,4);\<newline>'' @
     ''        const IN_DELAY_ROUGH_BIT0 = 1 << 4;\<newline>'' @
     ''        const IN_DELAY_ROUGH_BIT1 = 1 << 5;\<newline>'' @
     ''        const IN_DELAY_ROUGH_BIT2 = 1 << 6;\<newline>'' @
     ''    }\<newline>'' @
     ''}\<newline>'' @
     ''\<newline>'' @
     ''impl FlagReg for '' @ reg_name @ '' {\<newline>'' @
     ''    const REG: u32 = '' @ reg_addr @ '';\<newline>'' @
     ''}\<newline>'' @
     ''\<newline>'' @
     ''impl From<u32> for '' @ reg_name @ '' {\<newline>'' @
     ''    fn from(x: u32) -> Self {\<newline>'' @
     ''        Self::from_bits_truncate(x)\<newline>'' @
     ''    }\<newline>'' @
     ''}\<newline>'' @
     ''\<newline>'' @
     ''impl Into<u32> for '' @ reg_name @ '' {\<newline>'' @
     ''    fn into(self) -> u32 {\<newline>'' @
     ''        self.bits()\<newline>'' @
     ''    }\<newline>'' @
     ''}\<newline>'' @
     ''\<newline>'' @
     ''impl XReg1 for '' @ reg_name @ '' {\<newline>'' @
     ''\<newline>'' @
     ''}\<newline>''"

text \<open>
  \<open>readline\<close> returns the text up to and including the next line break, or all of the
  rest at the end of the file, and the empty string once nothing is left. The file is the
  text the stream delivers; the second component is what stays unread.
\<close>

fun readline :: "string \<Rightarrow> string \<times> string" where
  "readline [] = ([], [])"
| "readline (c # cs) =
     (if c = CHR 0x0A then ([c], cs)
      else (case readline cs of (l, rest) \<Rightarrow> (c # l, rest)))"

definition print :: "string \<Rightarrow> string \<Rightarrow> string" where
  "print s out = out @ s @ ''\<newline>''"

text \<open>
  The main block is the same in both scripts but for the two functions it calls, so the
  loop takes them as arguments. Its state is the line just read, the unread rest of the
  file and the text printed so far. The result is the printed text and the exception that
  ended the run, if one did: the scripts do not catch it.
\<close>

function main_loop ::
  "(string \<Rightarrow> error + string \<times> string) \<Rightarrow> (string \<Rightarrow> string \<Rightarrow> string) \<Rightarrow>
   string \<Rightarrow> string \<Rightarrow> string \<Rightarrow> string \<times> error option" where
  "main_loop extract generate input_str file out =
     (if input_str = [] then (out, None)
      else (case extract input_str of
              Inl e \<Rightarrow> (out, Some e)
            | Inr (reg_name, reg_addr) \<Rightarrow>
                main_loop extract generate (fst (readline file)) (snd (readline file))
                  (print (generate reg_name reg_addr) out)))"
  by pat_completeness auto
termination
proof (relation "measure (\<lambda>(extract, generate, input_str, file, out). length input_str + length file)",
    goal_cases)
  case 1
  show ?case by simp
next
  case 2
  have "length (fst (readline s)) + length (snd (readline s)) = length s" for s
    by (induction s) (auto split: prod.splits)
  with 2 show ?case by simp
qed

declare main_loop.simps [simp del]

definition main_xreg0 :: "string \<Rightarrow> string \<times> error option" where
  "main_xreg0 file =
     main_loop extract_macro_parameters_xreg0 generate_code_xreg0
       (fst (readline file)) (snd (readline file)) []"

definition main_xreg1 :: "string \<Rightarrow> string \<times> error option" where
  "main_xreg1 file =
     main_loop extract_macro_parameters_xreg1 generate_code_xreg1
       (fst (readline file)) (snd (readline file)) []"





section \<open>The mask calculator\<close>

text \<open>
  Python integers are unbounded, so the bit constants are of type \<open>int\<close>; \<open>1 << k\<close>
  is \<open>push_bit k 1\<close> and \<open>|\<close> is \<open>OR\<close>. The constants are local names of the
  two routines.
\<close>

definition FSDIF_INT_RE_BIT :: int where "FSDIF_INT_RE_BIT = push_bit 1 1"
definition FSDIF_INT_CMD_BIT :: int where "FSDIF_INT_CMD_BIT = push_bit 2 1"
definition FSDIF_INT_RCRC_BIT :: int where "FSDIF_INT_RCRC_BIT = push_bit 6 1"
definition FSDIF_INT_RTO_BIT :: int where "FSDIF_INT_RTO_BIT = push_bit 8 1"
definition FSDIF_INT_HTO_BIT :: int where "FSDIF_INT_HTO_BIT = push_bit 10 1"
definition FSDIF_INT_HLE_BIT :: int where "FSDIF_INT_HLE_BIT = push_bit 12 1"

definition FSDIF_INT_DTO_BIT :: int where "FSDIF_INT_DTO_BIT = push_bit 3 1"
definition FSDIF_INT_DCRC_BIT :: int where "FSDIF_INT_DCRC_BIT = push_bit 7 1"
definition FSDIF_INT_DRTO_BIT :: int where "FSDIF_INT_DRTO_BIT = push_bit 9 1"
definition FSDIF_INT_SBE_BCI_BIT :: int where "FSDIF_INT_SBE_BCI_BIT = push_bit 13 1"

definition FSDIF_INTS_CMD_MASK :: int where
  "FSDIF_INTS_CMD_MASK =
     FSDIF_INT_RE_BIT OR FSDIF_INT_CMD_BIT OR FSDIF_INT_RCRC_BIT OR
     FSDIF_INT_RTO_BIT OR FSDIF_INT_HTO_BIT OR FSDIF_INT_HLE_BIT"

definition FSDIF_INTS_DATA_MASK :: int where
  "FSDIF_INTS_DATA_MASK =
     FSDIF_INT_DTO_BIT OR FSDIF_INT_DCRC_BIT OR FSDIF_INT_DRTO_BIT OR
     FSDIF_INT_SBE_BCI_BIT"

definition FSDIF_DMAC_INT_ENA_FBE :: int where "FSDIF_DMAC_INT_ENA_FBE = push_bit 2 1"
definition FSDIF_DMAC_INT_ENA_DU :: int where "FSDIF_DMAC_INT_ENA_DU = push_bit 4 1"
definition FSDIF_DMAC_INT_ENA_NIS :: int where "FSDIF_DMAC_INT_ENA_NIS = push_bit 8 1"
definition FSDIF_DMAC_INT_ENA_AIS :: int where "FSDIF_DMAC_INT_ENA_AIS = push_bit 9 1"

definition FSDIF_DMAC_INTS_MASK :: int where
  "FSDIF_DMAC_INTS_MASK =
     FSDIF_DMAC_INT_ENA_FBE OR
     FSDIF_DMAC_INT_ENA_DU OR
     FSDIF_DMAC_INT_ENA_NIS OR
     FSDIF_DMAC_INT_ENA_AIS"

text \<open>
  The format specification \<open>#x\<close> of an f-string writes an integer in base 16 with
  the digits \<open>0123456789abcdef\<close>, as many as the number needs, after the prefix
  \<open>0x\<close>, and a minus sign before the prefix for a negative number.
\<close>

fun hex_digits :: "nat \<Rightarrow> string" where
  "hex_digits n =
     (if n < 16 then [''0123456789abcdef'' ! n]
      else hex_digits (n div 16) @ [''0123456789abcdef'' ! (n mod 16)])"

declare hex_digits.simps [simp del]

definition format_hex :: "int \<Rightarrow> string" where
  "format_hex n =
     (if n < 0 then ''-0x'' @ hex_digits (nat (- n)) else ''0x'' @ hex_digits (nat n))"

definition output_int_mask :: "string \<Rightarrow> string" where
  "output_int_mask out =
     print (''FSDIF_INTS_DATA_MASK: '' @ format_hex FSDIF_INTS_DATA_MASK)
       (print (''FSDIF_INTS_CMD_MASK: '' @ format_hex FSDIF_INTS_CMD_MASK) out)"

definition dmac_int_ena :: "string \<Rightarrow> string" where
  "dmac_int_ena out = print (''FSDIF_DMAC_INTS_MASK: '' @ format_hex FSDIF_DMAC_INTS_MASK) out"

text \<open>The main block of the calculator calls \<open>dmac_int_ena\<close> and nothing else.\<close>

definition main_temp :: string where
  "main_temp = dmac_int_ena []"

section \<open>Reading the printed text\<close>

text \<open>
  The claims speak about the lines of the printed text and about the constants that a
  generated block declares. \<open>lines_of\<close> cuts a text at its line breaks; the other
  functions read one line.
\<close>

fun split_lines :: "string \<Rightarrow> string \<Rightarrow> string list" where
  "split_lines cur [] = (if cur = [] then [] else [cur])"
| "split_lines cur (c # cs) =
     (if c = CHR 0x0A then cur # split_lines [] cs else split_lines (cur @ [c]) cs)"

definition lines_of :: "string \<Rightarrow> string list" where
  "lines_of s = split_lines [] s"

text \<open>
  A line of the calculator: a label without colon, a colon and a space, then \<open>0x\<close> and
  lowercase hexadecimal digits with no leading zero (the single digit \<open>0\<close> apart).
\<close>

definition is_hex_value :: "string \<Rightarrow> bool" where
  "is_hex_value v =
     (case literal ''0x'' v of
        None \<Rightarrow> False
      | Some ds \<Rightarrow>
          ds \<noteq> [] \<and> list_all (\<lambda>c. c \<in> set ''0123456789abcdef'') ds \<and>
          (length ds = 1 \<or> hd ds \<noteq> CHR ''0''))"

definition is_mask_line :: "string \<Rightarrow> bool" where
  "is_mask_line l =
     (takeWhile (\<lambda>c. c \<noteq> CHR '':'') l \<noteq> [] \<and>
      (case literal '': '' (dropWhile (\<lambda>c. c \<noteq> CHR '':'') l) of
         None \<Rightarrow> False
       | Some v \<Rightarrow> is_hex_value v))"

text \<open>
  A constant of a bit-flag type is a line \<open>const NAME = VALUE;\<close> after its
  indentation. The line \<open>const REG: u32 = ADDR;\<close> of the \<open>FlagReg\<close> block has a
  type after the name and is not one of them.
\<close>

definition bitflag_const :: "string \<Rightarrow> (string \<times> string) option" where
  "bitflag_const l =
     (case literal ''const '' (dropWhile (\<lambda>c. c = CHR '' '') l) of
        None \<Rightarrow> None
      | Some r \<Rightarrow>
          (case literal '' = '' (dropWhile is_word r) of
             None \<Rightarrow> None
           | Some v \<Rightarrow>
               if v \<noteq> [] \<and> last v = CHR '';'' then Some (takeWhile is_word r, butlast v)
               else None))"

definition bitflag_consts :: "string \<Rightarrow> (string \<times> string) list" where
  "bitflag_consts out = List.map_filter bitflag_const (lines_of out)"

definition parse_nat :: "string \<Rightarrow> nat option" where
  "parse_nat s =
     (if s \<noteq> [] \<and> list_all (\<lambda>c. c \<in> set ''0123456789'') s
      then Some (foldl (\<lambda>n c. 10 * n + (code c - 48)) 0 s)
      else None)"

text \<open>
  Modelled from the spec: the macro \<open>genmask!\<close> of the generated Rust text is not part
  of these scripts. The glossary of the specification gives it as the contiguous mask
  over the inclusive range from the high to the low bit. \<open>value_bits\<close> gives the bit
  positions that the value of a constant sets: the one position \<open>k\<close> of \<open>1 << k\<close>,
  the positions \<open>l\<close> to \<open>h\<close> of \<open>genmask!(h, l)\<close>.
\<close>

definition value_bits :: "string \<Rightarrow> nat list option" where
  "value_bits v =
     (case literal ''1 << '' v of
        Some k \<Rightarrow> map_option (\<lambda>k. [k]) (parse_nat k)
      | None \<Rightarrow>
          (case literal ''genmask!('' v of
             None \<Rightarrow> None
           | Some r \<Rightarrow>
               (case literal '','' (dropWhile (\<lambda>c. c \<in> set ''0123456789'') r) of
                  None \<Rightarrow> None
                | Some r2 \<Rightarrow>
                    (case (parse_nat (takeWhile (\<lambda>c. c \<in> set ''0123456789'') r),
                           parse_nat (takeWhile (\<lambda>c. c \<noteq> CHR '')'')
                                        (dropWhile (\<lambda>c. c = CHR '' '') r2)),
                           dropWhile (\<lambda>c. c \<noteq> CHR '')'') r2) of
                       (Some h, Some l, '')'') \<Rightarrow> Some [l..<Suc h]
                     | _ \<Rightarrow> None))))"

section \<open>The scan and the meaning of the pattern agree\<close>

lemma literal_Some: "literal p s = Some r \<longleftrightarrow> s = p @ r"
  by (induction p s rule: literal.induct) auto

lemma literal_append: "literal p (p @ r) = Some r"
  by (simp add: literal_Some)

lemma word_not_space: "is_word c \<Longrightarrow> \<not> is_space c"
  by (auto simp: is_word_def is_space_def isalnum_def isspace_def Let_def code_def)

lemma comma_not_word: "\<not> is_word (CHR '','')"
  by (simp add: is_word_def isalnum_def code_def)

lemma paren_not_word: "\<not> is_word (CHR '')'')"
  by (simp add: is_word_def isalnum_def code_def)

lemma takeWhile_run: "list_all P g \<Longrightarrow> \<not> P c \<Longrightarrow> takeWhile P (g @ c # r) = g"
  by (induction g) auto

lemma dropWhile_run: "list_all P g \<Longrightarrow> \<not> P c \<Longrightarrow> dropWhile P (g @ c # r) = c # r"
  by (induction g) auto

text \<open>
  Every split of the line gives the groups that the scan returns: a line has at most
  one pair of groups, and the scan finds it.
\<close>

lemma re_match_complete:
  assumes "pattern_matches macro input_str g1 g2"
  shows "re_match macro input_str = Some (g1, g2)"
proof -
  from assms obtain ws rest where
    s: "input_str = macro @ ''!('' @ g1 @ '','' @ ws @ g2 @ '');'' @ rest"
    and g1: "g1 \<noteq> []" "list_all is_word g1" and ws: "list_all is_space ws"
    and g2: "g2 \<noteq> []" "list_all is_word g2"
    unfolding pattern_matches_def by blast
  let ?r1 = "g1 @ '','' @ ws @ g2 @ '');'' @ rest"
  let ?r2 = "ws @ g2 @ '');'' @ rest"
  let ?r3 = "g2 @ '');'' @ rest"
  have l1: "literal (macro @ ''!('') input_str = Some ?r1"
    unfolding s using literal_append [of "macro @ ''!(''" ?r1] by simp
  have t1: "takeWhile is_word ?r1 = g1"
    using takeWhile_run [OF g1(2) comma_not_word] by simp
  have d1: "dropWhile is_word ?r1 = '','' @ ?r2"
    using dropWhile_run [OF g1(2) comma_not_word] by simp
  have l2: "literal '','' ('','' @ ?r2) = Some ?r2"
    by (rule literal_append)
  obtain c cs where g2c: "g2 = c # cs" using g2(1) by (cases g2) auto
  then have "\<not> is_space c" using g2(2) word_not_space by simp
  then have d2: "dropWhile is_space ?r2 = ?r3"
    using dropWhile_run [OF ws, of c] g2c by simp
  have t3: "takeWhile is_word ?r3 = g2"
    using takeWhile_run [OF g2(2) paren_not_word] by simp
  have d3: "dropWhile is_word ?r3 = '');'' @ rest"
    using dropWhile_run [OF g2(2) paren_not_word] by simp
  have l3: "literal '');'' ('');'' @ rest) = Some rest"
    by (rule literal_append)
  show ?thesis
    unfolding re_match_def l1 option.case t1 d1 l2 d2 t3 d3 l3 using g1(1) g2(1) by simp
qed

lemma re_match_sound:
  assumes "re_match macro input_str = Some (g1, g2)"
  shows "pattern_matches macro input_str g1 g2"
proof -
  from assms obtain r1 r2 r3 where
    l1: "literal (macro @ ''!('') input_str = Some r1"
    and n1: "takeWhile is_word r1 \<noteq> []"
    and l2: "literal '','' (dropWhile is_word r1) = Some r2"
    and n2: "takeWhile is_word (dropWhile is_space r2) \<noteq> []"
    and l3: "literal '');'' (dropWhile is_word (dropWhile is_space r2)) = Some r3"
    and g: "g1 = takeWhile is_word r1" "g2 = takeWhile is_word (dropWhile is_space r2)"
    unfolding re_match_def by (auto split: option.splits if_splits)
  have e1: "input_str = macro @ ''!('' @ r1" using l1 by (simp add: literal_Some)
  have e2: "dropWhile is_word r1 = '','' @ r2" using l2 by (simp add: literal_Some)
  have e3: "dropWhile is_word (dropWhile is_space r2) = '');'' @ r3"
    using l3 by (simp add: literal_Some)
  have "r1 = g1 @ dropWhile is_word r1" unfolding g by simp
  moreover have "r2 = takeWhile is_space r2 @ dropWhile is_space r2" by simp
  moreover have "dropWhile is_space r2 = g2 @ dropWhile is_word (dropWhile is_space r2)"
    unfolding g by simp
  ultimately have "input_str = macro @ ''!('' @ g1 @ '','' @ takeWhile is_space r2 @ g2 @ '');'' @ r3"
    using e1 e2 e3 by metis
  moreover have "list_all is_word g1" "list_all is_word g2" "list_all is_space (takeWhile is_space r2)"
    unfolding g by (auto simp: list_all_iff dest: set_takeWhileD)
  ultimately show ?thesis
    unfolding pattern_matches_def using n1 n2 g by blast
qed

lemma re_match_None:
  "re_match macro input_str = None \<longleftrightarrow> (\<forall>g1 g2. \<not> pattern_matches macro input_str g1 g2)"
proof
  assume n: "re_match macro input_str = None"
  show "\<forall>g1 g2. \<not> pattern_matches macro input_str g1 g2"
  proof (intro allI notI)
    fix g1 g2 assume "pattern_matches macro input_str g1 g2"
    then have "re_match macro input_str = Some (g1, g2)" by (rule re_match_complete)
    with n show False by simp
  qed
next
  assume a: "\<forall>g1 g2. \<not> pattern_matches macro input_str g1 g2"
  show "re_match macro input_str = None"
  proof (cases "re_match macro input_str")
    case None then show ?thesis .
  next
    case (Some p)
    obtain g1 g2 where "p = (g1, g2)" by (cases p)
    with Some have "pattern_matches macro input_str g1 g2" by (simp add: re_match_sound)
    with a show ?thesis by blast
  qed
qed

lemma pattern_matches_nonempty: "pattern_matches macro input_str g1 g2 \<Longrightarrow> input_str \<noteq> []"
  unfolding pattern_matches_def by auto

section \<open>The loop\<close>

lemma main_loop_iter:
  "input_str \<noteq> [] \<Longrightarrow> ex input_str = Inr (n, a) \<Longrightarrow>
   main_loop ex gen input_str f out =
     main_loop ex gen (fst (readline f)) (snd (readline f)) (print (gen n a) out)"
  by (subst main_loop.simps) simp

lemma main_loop_raise:
  "input_str \<noteq> [] \<Longrightarrow> ex input_str = Inl e \<Longrightarrow> main_loop ex gen input_str f out = (out, Some e)"
  by (subst main_loop.simps) simp

lemma main_loop_done: "main_loop ex gen [] f out = (out, None)"
  by (subst main_loop.simps) simp







lemma word_not_newline: "list_all is_word s \<Longrightarrow> CHR 0x0A \<notin> set s"
  by (auto simp: list_all_iff is_word_def isalnum_def code_def)

lemma pattern_matches_no_newline:
  "pattern_matches macro input_str g1 g2 \<Longrightarrow> CHR 0x0A \<notin> set g1 \<and> CHR 0x0A \<notin> set g2"
  unfolding pattern_matches_def using word_not_newline by blast

lemma isalnum_parts: "isalnum c \<Longrightarrow> isalpha c \<or> isdigit c \<or> isnumeric c"
  unfolding isalnum_def isalpha_def isdigit_def isnumeric_def Let_def
  by (elim disjE conjE) (simp_all, arith)

section \<open>Concrete lines\<close>

lemma GpioPinA_matches:
  "pattern_matches ''X_REG0'' ''X_REG0!(GpioPinA, 0x0300);\<newline>'' ''GpioPinA'' ''0x0300''"
  by (rule re_match_sound) code_simp

lemma GpioDelay3_matches:
  "pattern_matches ''X_REG1'' ''X_REG1!(GpioDelay3, 0x40);\<newline>'' ''GpioDelay3'' ''0x40''"
  by (rule re_match_sound) code_simp

lemma GpioPinA_xreg1_matches:
  "pattern_matches ''X_REG1'' ''X_REG1!(GpioPinA, 0x0300);\<newline>'' ''GpioPinA'' ''0x0300''"
  by (rule re_match_sound) code_simp

lemma missing_comma_no_match:
  "re_match ''X_REG0'' ''X_REG0!(GpioPinA 0x0300)'' = None"
  "re_match ''X_REG1'' ''X_REG0!(GpioPinA 0x0300)'' = None"
  by code_simp+

lemma readline_GpioPinA:
  "readline ''X_REG0!(GpioPinA, 0x0300);\<newline>'' = (''X_REG0!(GpioPinA, 0x0300);\<newline>'', [])"
  by code_simp

lemma readline_GpioDelay3:
  "readline ''X_REG1!(GpioDelay3, 0x40);\<newline>'' = (''X_REG1!(GpioDelay3, 0x40);\<newline>'', [])"
  by code_simp

lemma readline_missing_comma:
  "readline ''X_REG0!(GpioPinA 0x0300)'' = (''X_REG0!(GpioPinA 0x0300)'', [])"
  by code_simp

lemma readline_Nil: "readline [] = ([], [])"
  by simp

lemma one_half_matches:
  "re_match ''X_REG0'' (''X_REG0!('' @ [CHR 0xBD] @ '', 1);'') = Some ([CHR 0xBD], ''1'')"
  by code_simp

lemma one_half_class:
  "\<not> isalpha (CHR 0xBD)" "\<not> isdecimal (CHR 0xBD)" "\<not> isdigit (CHR 0xBD)"
  "CHR 0xBD \<noteq> CHR ''_''" "isnumeric (CHR 0xBD)"
  by (simp_all add: isalpha_def isdecimal_def isdigit_def isnumeric_def code_def)

section \<open>The lines of a generated block\<close>

lemma split_lines_append:
  "CHR 0x0A \<notin> set s \<Longrightarrow> split_lines cur (s @ rest) = split_lines (cur @ s) rest"
  by (induction s arbitrary: cur) auto

text \<open>
  The lines of a block, for a register name and an address without line break: the lines
  of the f-string with the two arguments in the places of their placeholders.
\<close>

lemma lines_generate_code_xreg0:
  assumes "CHR 0x0A \<notin> set reg_name" and "CHR 0x0A \<notin> set reg_addr"
  shows "lines_of (generate_code_xreg0 reg_name reg_addr) =
     [''bitflags! {'',
      ''    struct '' @ reg_name @ '': u32 {'',
      ''        const PULL_MASK = genmask!(9, 8);'',
      ''        const DRIVE_MASK = genmask!(7, 4);'',
      ''        const FUNC_MASK = genmask!(2, 0);'',
      ''        const FUNC_BIT0 = 1 << 0;'',
      ''        const FUNC_BIT1 = 1 << 1;'',
      ''        const FUNC_BIT2 = 1 << 2;'',
      ''        const DRIVE_BIT0 = 1 << 4;'',
      ''        const DRIVE_BIT1 = 1 << 5;'',
      ''        const DRIVE_BIT2 = 1 << 6;'',
      ''        const DRIVE_BIT3 = 1 << 7;'',
      ''        const PULL_BIT0 = 1 << 8;'',
      ''        const PULL_BIT1 = 1 << 9;'',
      ''    }'',
      ''}'',
      '''',
      ''impl FlagReg for '' @ reg_name @ '' {'',
      ''    const REG: u32 = '' @ reg_addr @ '';'',
      ''}'',
      '''',
      ''impl From<u32> for '' @ reg_name @ '' {'',
      ''    fn from(x: u32) -> Self {'',
      ''        Self::from_bits_truncate(x)'',
      ''    }'',
      ''}'',
      '''',
      ''impl Into<u32> for '' @ reg_name @ '' {'',
      ''    fn into(self) -> u32 {'',
      ''        self.bits()'',
      ''    }'',
      ''}'',
      '''',
      ''impl XReg0 for '' @ reg_name @ '' {'',
      '''',
      ''}'']"
  unfolding generate_code_xreg0_def lines_of_def
  using assms by (simp add: split_lines_append)

lemma lines_generate_code_xreg1:
  assumes "CHR 0x0A \<notin> set reg_name" and "CHR 0x0A \<notin> set reg_addr"
  shows "lines_of (generate_code_xreg1 reg_name reg_addr) =
     [''bitflags! {'',
      ''    struct '' @ reg_name @ '': u32 {'',
      ''        const OUT_DELAY_EN = 1 << 8;'',
      ''        const OUT_DELAY_DELICATE_MASK = genmask!(11,9);'',
      ''        const OUT_DELAY_DELICATE_BIT0 = 1 << 9;'',
      ''        const OUT_DELAY_DELICATE_BIT1 = 1 << 10;'',
      ''        const OUT_DELAY_DELICATE_BIT2 = 1 << 11;'',
      ''        const OUT_DELAY_ROUGH_MASK = genmask!(14,12);'',
      ''        const OUT_DELAY_ROUGH_BIT0 = 1 << 12;'',
      ''        const OUT_DELAY_ROUGH_BIT1 = 1 << 13;'',
      ''        const OUT_DELAY_ROUGH_BIT2 = 1 << 14;'',
      ''        const IN_DELAY_EN = 1 << 0;'',
      ''        const IN_DELAY_DELICATE_MASK = genmask!(3,1);'',
      ''        const IN_DELAY_DELICATE_BIT0 = 1 << 1;'',
      ''        const IN_DELAY_DELICATE_BIT1 = 1 << 2;'',
      ''        const IN_DELAY_DELICATE_BIT2 = 1 << 3;'',
      ''        const IN_DELAY_ROUGH_MASK = genmask!(6,4);'',
      ''        const IN_DELAY_ROUGH_BIT0 = 1 << 4;'',
      ''        const IN_DELAY_ROUGH_BIT1 = 1 << 5;'',
      ''        const IN_DELAY_ROUGH_BIT2 = 1 << 6;'',
      ''    }'',
      ''}'',
      '''',
      ''impl FlagReg for '' @ reg_name @ '' {'',
      ''    const REG: u32 = '' @ reg_addr @ '';'',
      ''}'',
      '''',
      ''impl From<u32> for '' @ reg_name @ '' {'',
      ''    fn from(x: u32) -> Self {'',
      ''        Self::from_bits_truncate(x)'',
      ''    }'',
      ''}'',
      '''',
      ''impl Into<u32> for '' @ reg_name @ '' {'',
      ''    fn into(self) -> u32 {'',
      ''        self.bits()'',
      ''    }'',
      ''}'',
      '''',
      ''impl XReg1 for '' @ reg_name @ '' {'',
      '''',
      ''}'']"
  unfolding generate_code_xreg1_def lines_of_def
  using assms by (simp add: split_lines_append)

section \<open>The two blocks of the scenarios\<close>

lemma main_xreg0_single:
  assumes "pattern_matches ''X_REG0'' l n a" and "readline l = (l, [])"
  shows "main_xreg0 l = (generate_code_xreg0 n a @ ''\<newline>'', None)"
proof -
  have e: "extract_macro_parameters_xreg0 l = Inr (n, a)"
    unfolding extract_macro_parameters_xreg0_def using re_match_complete [OF assms(1)] by simp
  show ?thesis
    unfolding main_xreg0_def assms(2) fst_conv snd_conv
    using main_loop_iter [where ex = extract_macro_parameters_xreg0 and gen = generate_code_xreg0
        and input_str = l and n = n and a = a and f = "[]" and out = "[]"]
      e pattern_matches_nonempty [OF assms(1)]
    by (simp add: main_loop_done print_def)
qed

lemma main_xreg1_single:
  assumes "pattern_matches ''X_REG1'' l n a" and "readline l = (l, [])"
  shows "main_xreg1 l = (generate_code_xreg1 n a @ ''\<newline>'', None)"
proof -
  have e: "extract_macro_parameters_xreg1 l = Inr (n, a)"
    unfolding extract_macro_parameters_xreg1_def using re_match_complete [OF assms(1)] by simp
  show ?thesis
    unfolding main_xreg1_def assms(2) fst_conv snd_conv
    using main_loop_iter [where ex = extract_macro_parameters_xreg1 and gen = generate_code_xreg1
        and input_str = l and n = n and a = a and f = "[]" and out = "[]"]
      e pattern_matches_nonempty [OF assms(1)]
    by (simp add: main_loop_done print_def)
qed

lemma GpioPinA_lines:
  "lines_of (generate_code_xreg0 ''GpioPinA'' ''0x0300'') =
     [''bitflags! {'',
      ''    struct GpioPinA: u32 {'',
      ''        const PULL_MASK = genmask!(9, 8);'',
      ''        const DRIVE_MASK = genmask!(7, 4);'',
      ''        const FUNC_MASK = genmask!(2, 0);'',
      ''        const FUNC_BIT0 = 1 << 0;'',
      ''        const FUNC_BIT1 = 1 << 1;'',
      ''        const FUNC_BIT2 = 1 << 2;'',
      ''        const DRIVE_BIT0 = 1 << 4;'',
      ''        const DRIVE_BIT1 = 1 << 5;'',
      ''        const DRIVE_BIT2 = 1 << 6;'',
      ''        const DRIVE_BIT3 = 1 << 7;'',
      ''        const PULL_BIT0 = 1 << 8;'',
      ''        const PULL_BIT1 = 1 << 9;'',
      ''    }'',
      ''}'',
      '''',
      ''impl FlagReg for GpioPinA {'',
      ''    const REG: u32 = 0x0300;'',
      ''}'',
      '''',
      ''impl From<u32> for GpioPinA {'',
      ''    fn from(x: u32) -> Self {'',
      ''        Self::from_bits_truncate(x)'',
      ''    }'',
      ''}'',
      '''',
      ''impl Into<u32> for GpioPinA {'',
      ''    fn into(self) -> u32 {'',
      ''        self.bits()'',
      ''    }'',
      ''}'',
      '''',
      ''impl XReg0 for GpioPinA {'',
      '''',
      ''}'']"
  using lines_generate_code_xreg0 [of "''GpioPinA''" "''0x0300''"] by simp

lemma GpioPinA_consts:
  "bitflag_consts (generate_code_xreg0 ''GpioPinA'' ''0x0300'') =
     [(''PULL_MASK'', ''genmask!(9, 8)''), (''DRIVE_MASK'', ''genmask!(7, 4)''),
      (''FUNC_MASK'', ''genmask!(2, 0)''), (''FUNC_BIT0'', ''1 << 0''),
      (''FUNC_BIT1'', ''1 << 1''), (''FUNC_BIT2'', ''1 << 2''),
      (''DRIVE_BIT0'', ''1 << 4''), (''DRIVE_BIT1'', ''1 << 5''),
      (''DRIVE_BIT2'', ''1 << 6''), (''DRIVE_BIT3'', ''1 << 7''),
      (''PULL_BIT0'', ''1 << 8''), (''PULL_BIT1'', ''1 << 9'')]"
  unfolding bitflag_consts_def GpioPinA_lines by code_simp

lemma GpioPinA_bits:
  "map (value_bits \<circ> snd)
     [(''PULL_MASK'', ''genmask!(9, 8)''), (''DRIVE_MASK'', ''genmask!(7, 4)''),
      (''FUNC_MASK'', ''genmask!(2, 0)''), (''FUNC_BIT0'', ''1 << 0''),
      (''FUNC_BIT1'', ''1 << 1''), (''FUNC_BIT2'', ''1 << 2''),
      (''DRIVE_BIT0'', ''1 << 4''), (''DRIVE_BIT1'', ''1 << 5''),
      (''DRIVE_BIT2'', ''1 << 6''), (''DRIVE_BIT3'', ''1 << 7''),
      (''PULL_BIT0'', ''1 << 8''), (''PULL_BIT1'', ''1 << 9'')] =
     [Some [8, 9], Some [4, 5, 6, 7], Some [0, 1, 2], Some [0], Some [1], Some [2],
      Some [4], Some [5], Some [6], Some [7], Some [8], Some [9]]"
  by code_simp

lemma GpioDelay3_lines:
  "lines_of (generate_code_xreg1 ''GpioDelay3'' ''0x40'') =
     [''bitflags! {'',
      ''    struct GpioDelay3: u32 {'',
      ''        const OUT_DELAY_EN = 1 << 8;'',
      ''        const OUT_DELAY_DELICATE_MASK = genmask!(11,9);'',
      ''        const OUT_DELAY_DELICATE_BIT0 = 1 << 9;'',
      ''        const OUT_DELAY_DELICATE_BIT1 = 1 << 10;'',
      ''        const OUT_DELAY_DELICATE_BIT2 = 1 << 11;'',
      ''        const OUT_DELAY_ROUGH_MASK = genmask!(14,12);'',
      ''        const OUT_DELAY_ROUGH_BIT0 = 1 << 12;'',
      ''        const OUT_DELAY_ROUGH_BIT1 = 1 << 13;'',
      ''        const OUT_DELAY_ROUGH_BIT2 = 1 << 14;'',
      ''        const IN_DELAY_EN = 1 << 0;'',
      ''        const IN_DELAY_DELICATE_MASK = genmask!(3,1);'',
      ''        const IN_DELAY_DELICATE_BIT0 = 1 << 1;'',
      ''        const IN_DELAY_DELICATE_BIT1 = 1 << 2;'',
      ''        const IN_DELAY_DELICATE_BIT2 = 1 << 3;'',
      ''        const IN_DELAY_ROUGH_MASK = genmask!(6,4);'',
      ''        const IN_DELAY_ROUGH_BIT0 = 1 << 4;'',
      ''        const IN_DELAY_ROUGH_BIT1 = 1 << 5;'',
      ''        const IN_DELAY_ROUGH_BIT2 = 1 << 6;'',
      ''    }'',
      ''}'',
      '''',
      ''impl FlagReg for GpioDelay3 {'',
      ''    const REG: u32 = 0x40;'',
      ''}'',
      '''',
      ''impl From<u32> for GpioDelay3 {'',
      ''    fn from(x: u32) -> Self {'',
      ''        Self::from_bits_truncate(x)'',
      ''    }'',
      ''}'',
      '''',
      ''impl Into<u32> for GpioDelay3 {'',
      ''    fn into(self) -> u32 {'',
      ''        self.bits()'',
      ''    }'',
      ''}'',
      '''',
      ''impl XReg1 for GpioDelay3 {'',
      '''',
      ''}'']"
  using lines_generate_code_xreg1 [of "''GpioDelay3''" "''0x40''"] by simp

lemma GpioDelay3_consts:
  "bitflag_consts (generate_code_xreg1 ''GpioDelay3'' ''0x40'') =
     [(''OUT_DELAY_EN'', ''1 << 8''),
      (''OUT_DELAY_DELICATE_MASK'', ''genmask!(11,9)''),
      (''OUT_DELAY_DELICATE_BIT0'', ''1 << 9''),
      (''OUT_DELAY_DELICATE_BIT1'', ''1 << 10''),
      (''OUT_DELAY_DELICATE_BIT2'', ''1 << 11''),
      (''OUT_DELAY_ROUGH_MASK'', ''genmask!(14,12)''),
      (''OUT_DELAY_ROUGH_BIT0'', ''1 << 12''),
      (''OUT_DELAY_ROUGH_BIT1'', ''1 << 13''),
      (''OUT_DELAY_ROUGH_BIT2'', ''1 << 14''),
      (''IN_DELAY_EN'', ''1 << 0''),
      (''IN_DELAY_DELICATE_MASK'', ''genmask!(3,1)''),
      (''IN_DELAY_DELICATE_BIT0'', ''1 << 1''),
      (''IN_DELAY_DELICATE_BIT1'', ''1 << 2''),
      (''IN_DELAY_DELICATE_BIT2'', ''1 << 3''),
      (''IN_DELAY_ROUGH_MASK'', ''genmask!(6,4)''),
      (''IN_DELAY_ROUGH_BIT0'', ''1 << 4''),
      (''IN_DELAY_ROUGH_BIT1'', ''1 << 5''),
      (''IN_DELAY_ROUGH_BIT2'', ''1 << 6'')]"
  unfolding bitflag_consts_def GpioDelay3_lines by code_simp

lemma GpioDelay3_bits:
  "map (value_bits \<circ> snd)
     [(''OUT_DELAY_EN'', ''1 << 8''),
      (''OUT_DELAY_DELICATE_MASK'', ''genmask!(11,9)''),
      (''OUT_DELAY_DELICATE_BIT0'', ''1 << 9''),
      (''OUT_DELAY_DELICATE_BIT1'', ''1 << 10''),
      (''OUT_DELAY_DELICATE_BIT2'', ''1 << 11''),
      (''OUT_DELAY_ROUGH_MASK'', ''genmask!(14,12)''),
      (''OUT_DELAY_ROUGH_BIT0'', ''1 << 12''),
      (''OUT_DELAY_ROUGH_BIT1'', ''1 << 13''),
      (''OUT_DELAY_ROUGH_BIT2'', ''1 << 14''),
      (''IN_DELAY_EN'', ''1 << 0''),
      (''IN_DELAY_DELICATE_MASK'', ''genmask!(3,1)''),
      (''IN_DELAY_DELICATE_BIT0'', ''1 << 1''),
      (''IN_DELAY_DELICATE_BIT1'', ''1 << 2''),
      (''IN_DELAY_DELICATE_BIT2'', ''1 << 3''),
      (''IN_DELAY_ROUGH_MASK'', ''genmask!(6,4)''),
      (''IN_DELAY_ROUGH_BIT0'', ''1 << 4''),
      (''IN_DELAY_ROUGH_BIT1'', ''1 << 5''),
      (''IN_DELAY_ROUGH_BIT2'', ''1 << 6'')] =
     [Some [8], Some [9, 10, 11], Some [9], Some [10], Some [11],
      Some [12, 13, 14], Some [12], Some [13], Some [14],
      Some [0], Some [1, 2, 3], Some [1], Some [2], Some [3],
      Some [4, 5, 6], Some [4], Some [5], Some [6]]"
  by code_simp

lemma GpioDelay3_positions:
  "sort (remdups (concat (List.map_filter id
     ([Some [8], Some [9, 10, 11], Some [9], Some [10], Some [11],
      Some [12, 13, 14], Some [12], Some [13], Some [14],
      Some [0], Some [1, 2, 3], Some [1], Some [2], Some [3],
      Some [4, 5, 6], Some [4], Some [5], Some [6]] :: nat list option list)))) =
     [0, 1, 2, 3, 4, 5, 6, 8, 9, 10, 11, 12, 13, 14]"
  "length (filter (\<lambda>b. map_option length b = Some 1)
     ([Some [8], Some [9, 10, 11], Some [9], Some [10], Some [11],
      Some [12, 13, 14], Some [12], Some [13], Some [14],
      Some [0], Some [1, 2, 3], Some [1], Some [2], Some [3],
      Some [4, 5, 6], Some [4], Some [5], Some [6]] :: nat list option list)) = 14"
  "length (filter (\<lambda>b. map_option length b = Some 3)
     ([Some [8], Some [9, 10, 11], Some [9], Some [10], Some [11],
      Some [12, 13, 14], Some [12], Some [13], Some [14],
      Some [0], Some [1, 2, 3], Some [1], Some [2], Some [3],
      Some [4, 5, 6], Some [4], Some [5], Some [6]] :: nat list option list)) = 4"
  by code_simp+

section \<open>Claims about the generators\<close>

text \<open>
  Claim C1. For every input line that matches \<open>MACRO!(NAME, ADDR);\<close>, with \<open>X_REG0\<close>
  as the macro of variant A and \<open>X_REG1\<close> as the macro of variant B and with
  \<open>NAME\<close> and \<open>ADDR\<close> made of word characters, extraction returns exactly the pair
  \<open>(NAME, ADDR)\<close>, unchanged, and the iteration of the main loop at that line prints
  exactly one block, the text of \<open>generate_code\<close> for \<open>NAME\<close> and \<open>ADDR\<close>
  followed by the line break of \<open>print\<close>, and goes on with the next line of the file.
  The lines of that block are the lines of the template of the variant with \<open>NAME\<close>
  itself at each of the five places of the register name and \<open>ADDR\<close> itself at the
  place of the address, and nothing else changed.
\<close>

theorem matching_line_prints_one_block:
  assumes "pattern_matches ''X_REG0'' line0 NAME ADDR"
    and "pattern_matches ''X_REG1'' line1 NAME ADDR"
  shows "extract_macro_parameters_xreg0 line0 = Inr (NAME, ADDR) \<and>
         extract_macro_parameters_xreg1 line1 = Inr (NAME, ADDR) \<and>
         main_loop extract_macro_parameters_xreg0 generate_code_xreg0 line0 f out =
           main_loop extract_macro_parameters_xreg0 generate_code_xreg0
             (fst (readline f)) (snd (readline f))
             (out @ generate_code_xreg0 NAME ADDR @ ''\<newline>'') \<and>
         main_loop extract_macro_parameters_xreg1 generate_code_xreg1 line1 f out =
           main_loop extract_macro_parameters_xreg1 generate_code_xreg1
             (fst (readline f)) (snd (readline f))
             (out @ generate_code_xreg1 NAME ADDR @ ''\<newline>'') \<and>
         lines_of (generate_code_xreg0 NAME ADDR) =
     [''bitflags! {'',
      ''    struct '' @ NAME @ '': u32 {'',
      ''        const PULL_MASK = genmask!(9, 8);'',
      ''        const DRIVE_MASK = genmask!(7, 4);'',
      ''        const FUNC_MASK = genmask!(2, 0);'',
      ''        const FUNC_BIT0 = 1 << 0;'',
      ''        const FUNC_BIT1 = 1 << 1;'',
      ''        const FUNC_BIT2 = 1 << 2;'',
      ''        const DRIVE_BIT0 = 1 << 4;'',
      ''        const DRIVE_BIT1 = 1 << 5;'',
      ''        const DRIVE_BIT2 = 1 << 6;'',
      ''        const DRIVE_BIT3 = 1 << 7;'',
      ''        const PULL_BIT0 = 1 << 8;'',
      ''        const PULL_BIT1 = 1 << 9;'',
      ''    }'',
      ''}'',
      '''',
      ''impl FlagReg for '' @ NAME @ '' {'',
      ''    const REG: u32 = '' @ ADDR @ '';'',
      ''}'',
      '''',
      ''impl From<u32> for '' @ NAME @ '' {'',
      ''    fn from(x: u32) -> Self {'',
      ''        Self::from_bits_truncate(x)'',
      ''    }'',
      ''}'',
      '''',
      ''impl Into<u32> for '' @ NAME @ '' {'',
      ''    fn into(self) -> u32 {'',
      ''        self.bits()'',
      ''    }'',
      ''}'',
      '''',
      ''impl XReg0 for '' @ NAME @ '' {'',
      '''',
      ''}''] \<and>
         lines_of (generate_code_xreg1 NAME ADDR) =
     [''bitflags! {'',
      ''    struct '' @ NAME @ '': u32 {'',
      ''        const OUT_DELAY_EN = 1 << 8;'',
      ''        const OUT_DELAY_DELICATE_MASK = genmask!(11,9);'',
      ''        const OUT_DELAY_DELICATE_BIT0 = 1 << 9;'',
      ''        const OUT_DELAY_DELICATE_BIT1 = 1 << 10;'',
      ''        const OUT_DELAY_DELICATE_BIT2 = 1 << 11;'',
      ''        const OUT_DELAY_ROUGH_MASK = genmask!(14,12);'',
      ''        const OUT_DELAY_ROUGH_BIT0 = 1 << 12;'',
      ''        const OUT_DELAY_ROUGH_BIT1 = 1 << 13;'',
      ''        const OUT_DELAY_ROUGH_BIT2 = 1 << 14;'',
      ''        const IN_DELAY_EN = 1 << 0;'',
      ''        const IN_DELAY_DELICATE_MASK = genmask!(3,1);'',
      ''        const IN_DELAY_DELICATE_BIT0 = 1 << 1;'',
      ''        const IN_DELAY_DELICATE_BIT1 = 1 << 2;'',
      ''        const IN_DELAY_DELICATE_BIT2 = 1 << 3;'',
      ''        const IN_DELAY_ROUGH_MASK = genmask!(6,4);'',
      ''        const IN_DELAY_ROUGH_BIT0 = 1 << 4;'',
      ''        const IN_DELAY_ROUGH_BIT1 = 1 << 5;'',
      ''        const IN_DELAY_ROUGH_BIT2 = 1 << 6;'',
      ''    }'',
      ''}'',
      '''',
      ''impl FlagReg for '' @ NAME @ '' {'',
      ''    const REG: u32 = '' @ ADDR @ '';'',
      ''}'',
      '''',
      ''impl From<u32> for '' @ NAME @ '' {'',
      ''    fn from(x: u32) -> Self {'',
      ''        Self::from_bits_truncate(x)'',
      ''    }'',
      ''}'',
      '''',
      ''impl Into<u32> for '' @ NAME @ '' {'',
      ''    fn into(self) -> u32 {'',
      ''        self.bits()'',
      ''    }'',
      ''}'',
      '''',
      ''impl XReg1 for '' @ NAME @ '' {'',
      '''',
      ''}'']"
proof (intro conjI)
  have n: "CHR 0x0A \<notin> set NAME" "CHR 0x0A \<notin> set ADDR"
    using pattern_matches_no_newline [OF assms(1)] by simp_all
  show e0: "extract_macro_parameters_xreg0 line0 = Inr (NAME, ADDR)"
    unfolding extract_macro_parameters_xreg0_def using re_match_complete [OF assms(1)] by simp
  show e1: "extract_macro_parameters_xreg1 line1 = Inr (NAME, ADDR)"
    unfolding extract_macro_parameters_xreg1_def using re_match_complete [OF assms(2)] by simp
  show "main_loop extract_macro_parameters_xreg0 generate_code_xreg0 line0 f out =
      main_loop extract_macro_parameters_xreg0 generate_code_xreg0
        (fst (readline f)) (snd (readline f))
        (out @ generate_code_xreg0 NAME ADDR @ ''\<newline>'')"
    using e0 pattern_matches_nonempty [OF assms(1)]
      main_loop_iter [where input_str = line0 and ex = extract_macro_parameters_xreg0
        and gen = generate_code_xreg0 and n = NAME and a = ADDR and f = f and out = out]
    by (simp add: print_def)
  show "main_loop extract_macro_parameters_xreg1 generate_code_xreg1 line1 f out =
      main_loop extract_macro_parameters_xreg1 generate_code_xreg1
        (fst (readline f)) (snd (readline f))
        (out @ generate_code_xreg1 NAME ADDR @ ''\<newline>'')"
    using e1 pattern_matches_nonempty [OF assms(2)]
      main_loop_iter [where input_str = line1 and ex = extract_macro_parameters_xreg1
        and gen = generate_code_xreg1 and n = NAME and a = ADDR and f = f and out = out]
    by (simp add: print_def)
  show "lines_of (generate_code_xreg0 NAME ADDR) =
     [''bitflags! {'',
      ''    struct '' @ NAME @ '': u32 {'',
      ''        const PULL_MASK = genmask!(9, 8);'',
      ''        const DRIVE_MASK = genmask!(7, 4);'',
      ''        const FUNC_MASK = genmask!(2, 0);'',
      ''        const FUNC_BIT0 = 1 << 0;'',
      ''        const FUNC_BIT1 = 1 << 1;'',
      ''        const FUNC_BIT2 = 1 << 2;'',
      ''        const DRIVE_BIT0 = 1 << 4;'',
      ''        const DRIVE_BIT1 = 1 << 5;'',
      ''        const DRIVE_BIT2 = 1 << 6;'',
      ''        const DRIVE_BIT3 = 1 << 7;'',
      ''        const PULL_BIT0 = 1 << 8;'',
      ''        const PULL_BIT1 = 1 << 9;'',
      ''    }'',
      ''}'',
      '''',
      ''impl FlagReg for '' @ NAME @ '' {'',
      ''    const REG: u32 = '' @ ADDR @ '';'',
      ''}'',
      '''',
      ''impl From<u32> for '' @ NAME @ '' {'',
      ''    fn from(x: u32) -> Self {'',
      ''        Self::from_bits_truncate(x)'',
      ''    }'',
      ''}'',
      '''',
      ''impl Into<u32> for '' @ NAME @ '' {'',
      ''    fn into(self) -> u32 {'',
      ''        self.bits()'',
      ''    }'',
      ''}'',
      '''',
      ''impl XReg0 for '' @ NAME @ '' {'',
      '''',
      ''}'']"
    by (rule lines_generate_code_xreg0 [OF n])
  show "lines_of (generate_code_xreg1 NAME ADDR) =
     [''bitflags! {'',
      ''    struct '' @ NAME @ '': u32 {'',
      ''        const OUT_DELAY_EN = 1 << 8;'',
      ''        const OUT_DELAY_DELICATE_MASK = genmask!(11,9);'',
      ''        const OUT_DELAY_DELICATE_BIT0 = 1 << 9;'',
      ''        const OUT_DELAY_DELICATE_BIT1 = 1 << 10;'',
      ''        const OUT_DELAY_DELICATE_BIT2 = 1 << 11;'',
      ''        const OUT_DELAY_ROUGH_MASK = genmask!(14,12);'',
      ''        const OUT_DELAY_ROUGH_BIT0 = 1 << 12;'',
      ''        const OUT_DELAY_ROUGH_BIT1 = 1 << 13;'',
      ''        const OUT_DELAY_ROUGH_BIT2 = 1 << 14;'',
      ''        const IN_DELAY_EN = 1 << 0;'',
      ''        const IN_DELAY_DELICATE_MASK = genmask!(3,1);'',
      ''        const IN_DELAY_DELICATE_BIT0 = 1 << 1;'',
      ''        const IN_DELAY_DELICATE_BIT1 = 1 << 2;'',
      ''        const IN_DELAY_DELICATE_BIT2 = 1 << 3;'',
      ''        const IN_DELAY_ROUGH_MASK = genmask!(6,4);'',
      ''        const IN_DELAY_ROUGH_BIT0 = 1 << 4;'',
      ''        const IN_DELAY_ROUGH_BIT1 = 1 << 5;'',
      ''        const IN_DELAY_ROUGH_BIT2 = 1 << 6;'',
      ''    }'',
      ''}'',
      '''',
      ''impl FlagReg for '' @ NAME @ '' {'',
      ''    const REG: u32 = '' @ ADDR @ '';'',
      ''}'',
      '''',
      ''impl From<u32> for '' @ NAME @ '' {'',
      ''    fn from(x: u32) -> Self {'',
      ''        Self::from_bits_truncate(x)'',
      ''    }'',
      ''}'',
      '''',
      ''impl Into<u32> for '' @ NAME @ '' {'',
      ''    fn into(self) -> u32 {'',
      ''        self.bits()'',
      ''    }'',
      ''}'',
      '''',
      ''impl XReg1 for '' @ NAME @ '' {'',
      '''',
      ''}'']"
    by (rule lines_generate_code_xreg1 [OF n])
qed

theorem matching_line_prints_one_block_witness:
  "pattern_matches ''X_REG0'' ''X_REG0!(GpioPinA, 0x0300);\<newline>'' ''GpioPinA'' ''0x0300'' \<and>
   pattern_matches ''X_REG1'' ''X_REG1!(GpioPinA, 0x0300);\<newline>'' ''GpioPinA'' ''0x0300'' \<and>
   extract_macro_parameters_xreg0 ''X_REG0!(GpioPinA, 0x0300);\<newline>'' =
     Inr (''GpioPinA'', ''0x0300'') \<and>
   extract_macro_parameters_xreg1 ''X_REG1!(GpioPinA, 0x0300);\<newline>'' =
     Inr (''GpioPinA'', ''0x0300'') \<and>
   main_loop extract_macro_parameters_xreg0 generate_code_xreg0
       ''X_REG0!(GpioPinA, 0x0300);\<newline>'' [] [] =
     (generate_code_xreg0 ''GpioPinA'' ''0x0300'' @ ''\<newline>'', None) \<and>
   main_loop extract_macro_parameters_xreg1 generate_code_xreg1
       ''X_REG1!(GpioPinA, 0x0300);\<newline>'' [] [] =
     (generate_code_xreg1 ''GpioPinA'' ''0x0300'' @ ''\<newline>'', None) \<and>
   take 2 (lines_of (generate_code_xreg0 ''GpioPinA'' ''0x0300'')) =
     [''bitflags! {'', ''    struct GpioPinA: u32 {''] \<and>
   take 2 (lines_of (generate_code_xreg1 ''GpioPinA'' ''0x0300'')) =
     [''bitflags! {'', ''    struct GpioPinA: u32 {'']"
proof -
  note t = matching_line_prints_one_block
    [OF GpioPinA_matches GpioPinA_xreg1_matches, of "[]" "[]"]
  note e0 = t [THEN conjunct1]
  note e1 = t [THEN conjunct2, THEN conjunct1]
  note m0 = t [THEN conjunct2, THEN conjunct2, THEN conjunct1]
  note m1 = t [THEN conjunct2, THEN conjunct2, THEN conjunct2, THEN conjunct1]
  note l0 = t [THEN conjunct2, THEN conjunct2, THEN conjunct2, THEN conjunct2, THEN conjunct1]
  note l1 = t [THEN conjunct2, THEN conjunct2, THEN conjunct2, THEN conjunct2, THEN conjunct2]
  have m0': "main_loop extract_macro_parameters_xreg0 generate_code_xreg0
       ''X_REG0!(GpioPinA, 0x0300);\<newline>'' [] [] =
     (generate_code_xreg0 ''GpioPinA'' ''0x0300'' @ ''\<newline>'', None)"
    using m0 by (simp add: main_loop_done)
  have m1': "main_loop extract_macro_parameters_xreg1 generate_code_xreg1
       ''X_REG1!(GpioPinA, 0x0300);\<newline>'' [] [] =
     (generate_code_xreg1 ''GpioPinA'' ''0x0300'' @ ''\<newline>'', None)"
    using m1 by (simp add: main_loop_done)
  have l0': "take 2 (lines_of (generate_code_xreg0 ''GpioPinA'' ''0x0300'')) =
     [''bitflags! {'', ''    struct GpioPinA: u32 {'']"
    unfolding l0 by simp
  have l1': "take 2 (lines_of (generate_code_xreg1 ''GpioPinA'' ''0x0300'')) =
     [''bitflags! {'', ''    struct GpioPinA: u32 {'']"
    unfolding l1 by simp
  show ?thesis
    by (intro conjI) (rule GpioPinA_matches GpioPinA_xreg1_matches e0 e1 m0' m1' l0' l1')+
qed

text \<open>
  Claim C4. For every input line that does not match the pattern, extraction raises the
  \<open>ValueError\<close> of the malformed line, and the run ends at that line with this error
  and with the printed text as it was before the line: no block is printed for it. The
  line with the missing comma, \<open>X_REG0!(GpioPinA 0x0300)\<close>, is the instance of the
  witness. (The loop never passes the empty string to extraction: it means the end of the
  file.)
\<close>

theorem malformed_line_raises:
  assumes "\<forall>g1 g2. \<not> pattern_matches ''X_REG0'' line0 g1 g2"
    and "\<forall>g1 g2. \<not> pattern_matches ''X_REG1'' line1 g1 g2"
    and "line0 \<noteq> []" and "line1 \<noteq> []"
  shows "extract_macro_parameters_xreg0 line0 =
           Inl (ValueError ''Input string does not match the expected format.'') \<and>
         extract_macro_parameters_xreg1 line1 =
           Inl (ValueError ''Input string does not match the expected format.'') \<and>
         main_loop extract_macro_parameters_xreg0 generate_code_xreg0 line0 f out =
           (out, Some (ValueError ''Input string does not match the expected format.'')) \<and>
         main_loop extract_macro_parameters_xreg1 generate_code_xreg1 line1 f out =
           (out, Some (ValueError ''Input string does not match the expected format.''))"
proof -
  have e0: "extract_macro_parameters_xreg0 line0 =
      Inl (ValueError ''Input string does not match the expected format.'')"
    unfolding extract_macro_parameters_xreg0_def
    using assms(1) re_match_None [of "''X_REG0''" line0] by simp
  have e1: "extract_macro_parameters_xreg1 line1 =
      Inl (ValueError ''Input string does not match the expected format.'')"
    unfolding extract_macro_parameters_xreg1_def
    using assms(2) re_match_None [of "''X_REG1''" line1] by simp
  show ?thesis
    using e0 e1 assms(3,4)
      main_loop_raise [where input_str = line0 and ex = extract_macro_parameters_xreg0
        and gen = generate_code_xreg0 and f = f and out = out]
      main_loop_raise [where input_str = line1 and ex = extract_macro_parameters_xreg1
        and gen = generate_code_xreg1 and f = f and out = out]
    by simp
qed

theorem malformed_line_raises_witness:
  "(\<forall>g1 g2. \<not> pattern_matches ''X_REG0'' ''X_REG0!(GpioPinA 0x0300)'' g1 g2) \<and>
   (\<forall>g1 g2. \<not> pattern_matches ''X_REG1'' ''X_REG0!(GpioPinA 0x0300)'' g1 g2) \<and>
   extract_macro_parameters_xreg0 ''X_REG0!(GpioPinA 0x0300)'' =
     Inl (ValueError ''Input string does not match the expected format.'') \<and>
   main_xreg0 ''X_REG0!(GpioPinA 0x0300)'' =
     ([], Some (ValueError ''Input string does not match the expected format.'')) \<and>
   main_xreg1 ''X_REG0!(GpioPinA 0x0300)'' =
     ([], Some (ValueError ''Input string does not match the expected format.''))"
proof -
  have h0: "\<forall>g1 g2. \<not> pattern_matches ''X_REG0'' ''X_REG0!(GpioPinA 0x0300)'' g1 g2"
    using missing_comma_no_match(1)
      re_match_None [of "''X_REG0''" "''X_REG0!(GpioPinA 0x0300)''"] by blast
  have h1: "\<forall>g1 g2. \<not> pattern_matches ''X_REG1'' ''X_REG0!(GpioPinA 0x0300)'' g1 g2"
    using missing_comma_no_match(2)
      re_match_None [of "''X_REG1''" "''X_REG0!(GpioPinA 0x0300)''"] by blast
  have n: "''X_REG0!(GpioPinA 0x0300)'' \<noteq> []" by simp
  show ?thesis
    unfolding main_xreg0_def main_xreg1_def readline_missing_comma fst_conv snd_conv
    using malformed_line_raises [OF h0 h1 n n, of "[]" "[]"] h0 h1 by simp
qed

text \<open>
  Claim C9. The match is tried at the start of the line and does not have to reach its
  end: a line that starts with a well-formed invocation \<open>MACRO!(NAME, ADDR);\<close> is
  accepted whatever follows the semicolon, and extraction returns the same pair
  \<open>(NAME, ADDR)\<close> as for the invocation alone.
\<close>

theorem trailing_text_accepted:
  assumes "NAME \<noteq> []" "list_all is_word NAME" "ADDR \<noteq> []" "list_all is_word ADDR"
    and "list_all is_space ws"
  shows "extract_macro_parameters_xreg0 (''X_REG0!('' @ NAME @ '','' @ ws @ ADDR @ '');'' @ suffix) =
           Inr (NAME, ADDR) \<and>
         extract_macro_parameters_xreg0 (''X_REG0!('' @ NAME @ '','' @ ws @ ADDR @ '');'' @ suffix) =
           extract_macro_parameters_xreg0 (''X_REG0!('' @ NAME @ '','' @ ws @ ADDR @ '');'') \<and>
         extract_macro_parameters_xreg1 (''X_REG1!('' @ NAME @ '','' @ ws @ ADDR @ '');'' @ suffix) =
           Inr (NAME, ADDR) \<and>
         extract_macro_parameters_xreg1 (''X_REG1!('' @ NAME @ '','' @ ws @ ADDR @ '');'' @ suffix) =
           extract_macro_parameters_xreg1 (''X_REG1!('' @ NAME @ '','' @ ws @ ADDR @ '');'')"
proof -
  have p: "pattern_matches macro (macro @ ''!('' @ NAME @ '','' @ ws @ ADDR @ '');'' @ r) NAME ADDR"
    for macro r
    unfolding pattern_matches_def using assms by blast
  have m: "re_match macro (macro @ ''!('' @ NAME @ '','' @ ws @ ADDR @ '');'' @ r) = Some (NAME, ADDR)"
    for macro r
    by (rule re_match_complete [OF p])
  show ?thesis
    unfolding extract_macro_parameters_xreg0_def extract_macro_parameters_xreg1_def
    using m [of "''X_REG0''" suffix] m [of "''X_REG0''" "[]"]
      m [of "''X_REG1''" suffix] m [of "''X_REG1''" "[]"]
    by simp
qed

theorem trailing_text_accepted_witness:
  "''GpioPinA'' \<noteq> [] \<and> list_all is_word ''GpioPinA'' \<and>
   ''0x0300'' \<noteq> [] \<and> list_all is_word ''0x0300'' \<and> list_all is_space '' '' \<and>
   extract_macro_parameters_xreg0 ''X_REG0!(GpioPinA, 0x0300); // pin A, see X_REG0!(B, 1);'' =
     Inr (''GpioPinA'', ''0x0300'') \<and>
   extract_macro_parameters_xreg1 ''X_REG1!(GpioPinA, 0x0300);;;) trailing text'' =
     Inr (''GpioPinA'', ''0x0300'')"
proof -
  have w: "list_all is_word ''GpioPinA''" "list_all is_word ''0x0300''"
    by (simp_all add: is_word_def isalnum_def code_def)
  have s: "list_all is_space '' ''"
    by (simp add: is_space_def isspace_def code_def)
  show ?thesis
    using w s
      trailing_text_accepted [OF _ w(1) _ w(2) s, of "'' // pin A, see X_REG0!(B, 1);''"]
      trailing_text_accepted [OF _ w(1) _ w(2) s, of "'';;) trailing text''"]
    by simp
qed

text \<open>
  Claim C10 as stated, with tokens of letters, digits and underscores only, does not
  hold: \<open>\w\<close> also takes the numeric characters that are neither letters nor digits.
  For the line \<open>X_REG0!(h, 1);\<close> with the fraction one half (code point \<open>0xBD\<close>) as
  \<open>h\<close>, extraction returns the name that is this one character, and the character is
  not a letter, not a digit (decimal or other) and not the underscore.
\<close>

theorem extracted_name_one_half:
  "extract_macro_parameters_xreg0 (''X_REG0!('' @ [CHR 0xBD] @ '', 1);'') =
     Inr ([CHR 0xBD], ''1'') \<and>
   \<not> isalpha (CHR 0xBD) \<and> \<not> isdecimal (CHR 0xBD) \<and> \<not> isdigit (CHR 0xBD) \<and>
   CHR 0xBD \<noteq> CHR ''_''"
  unfolding extract_macro_parameters_xreg0_def one_half_matches
  using one_half_class by simp

text \<open>
  Claim C10, as amended. Whenever extraction returns a pair, for either variant, both the
  register name and the address are non-empty and every character of them is a letter
  (\<open>str.isalpha\<close>), a digit (\<open>str.isdigit\<close>), another numeric character
  (\<open>str.isnumeric\<close>: below 256 the fractions one quarter, one half and three quarters)
  or the underscore. Among the code points below 128 these are the digits \<open>0\<close> to
  \<open>9\<close>, the letters \<open>A\<close> to \<open>Z\<close> and \<open>a\<close> to \<open>z\<close>, and the underscore. No
  white space, comma, parenthesis, semicolon or exclamation mark is among them.
\<close>

theorem extracted_tokens_are_words:
  assumes "extract_macro_parameters_xreg0 input_str = Inr (reg_name, reg_addr) \<or>
           extract_macro_parameters_xreg1 input_str = Inr (reg_name, reg_addr)"
  shows "reg_name \<noteq> [] \<and> reg_addr \<noteq> [] \<and>
         (\<forall>c \<in> set reg_name \<union> set reg_addr.
            (isalpha c \<or> isdigit c \<or> isnumeric c \<or> c = CHR ''_'') \<and>
            (isalpha c \<or> isdigit c \<or> c = CHR ''_'' \<or>
               c = CHR 0xBC \<or> c = CHR 0xBD \<or> c = CHR 0xBE) \<and>
            (code c < 128 \<longrightarrow>
               (code (CHR ''0'') \<le> code c \<and> code c \<le> code (CHR ''9'')) \<or>
               (code (CHR ''A'') \<le> code c \<and> code c \<le> code (CHR ''Z'')) \<or>
               (code (CHR ''a'') \<le> code c \<and> code c \<le> code (CHR ''z'')) \<or>
               c = CHR ''_'') \<and>
            \<not> is_space c \<and> c \<notin> set '',();!'')"
proof -
  from assms obtain macro where "re_match macro input_str = Some (reg_name, reg_addr)"
    unfolding extract_macro_parameters_xreg0_def extract_macro_parameters_xreg1_def
    by (auto split: option.splits)
  then have "pattern_matches macro input_str reg_name reg_addr" by (rule re_match_sound)
  then have ne: "reg_name \<noteq> []" "reg_addr \<noteq> []"
    and w: "\<forall>c \<in> set reg_name \<union> set reg_addr. is_word c"
    unfolding pattern_matches_def by (auto simp: list_all_iff)
  have "(isalpha c \<or> isdigit c \<or> isnumeric c \<or> c = CHR ''_'') \<and>
        (isalpha c \<or> isdigit c \<or> c = CHR ''_'' \<or>
           c = CHR 0xBC \<or> c = CHR 0xBD \<or> c = CHR 0xBE) \<and>
        (code c < 128 \<longrightarrow>
           (code (CHR ''0'') \<le> code c \<and> code c \<le> code (CHR ''9'')) \<or>
           (code (CHR ''A'') \<le> code c \<and> code c \<le> code (CHR ''Z'')) \<or>
           (code (CHR ''a'') \<le> code c \<and> code c \<le> code (CHR ''z'')) \<or>
           c = CHR ''_'') \<and>
        \<not> is_space c \<and> c \<notin> set '',();!''" if "is_word c" for c
  proof -
    have p: "isalpha c \<or> isdigit c \<or> isnumeric c \<or> c = CHR ''_''"
      using that isalnum_parts [of c] by (auto simp: is_word_def)
    have q: "isalpha c \<or> isdigit c \<or> c = CHR ''_'' \<or>
        c = CHR 0xBC \<or> c = CHR 0xBD \<or> c = CHR 0xBE"
    proof (cases "isnumeric c \<and> \<not> isdigit c")
      case True
      then have "code c = 0xBC \<or> code c = 0xBD \<or> code c = 0xBE"
        unfolding isnumeric_def isdigit_def Let_def by arith
      then have "(of_char c :: nat) = of_char (CHR 0xBC) \<or>
          (of_char c :: nat) = of_char (CHR 0xBD) \<or> (of_char c :: nat) = of_char (CHR 0xBE)"
        by (simp add: code_def)
      then have "c = CHR 0xBC \<or> c = CHR 0xBD \<or> c = CHR 0xBE"
        by (simp only: of_char_eq_iff)
      then show ?thesis by blast
    next
      case False
      with p show ?thesis by blast
    qed
    have "c \<notin> set '',();!''"
      using that by (auto simp: is_word_def isalnum_def code_def)
    moreover have "code c < 128 \<longrightarrow>
           (code (CHR ''0'') \<le> code c \<and> code c \<le> code (CHR ''9'')) \<or>
           (code (CHR ''A'') \<le> code c \<and> code c \<le> code (CHR ''Z'')) \<or>
           (code (CHR ''a'') \<le> code c \<and> code c \<le> code (CHR ''z'')) \<or>
           c = CHR ''_''"
      using that by (auto simp: is_word_def isalnum_def Let_def code_def)
    ultimately show ?thesis
      using p q word_not_space [OF that] by blast
  qed
  with ne w show ?thesis by blast
qed

theorem extracted_tokens_are_words_witness:
  "extract_macro_parameters_xreg0 ''X_REG0!(GpioPinA, 0x0300);\<newline>'' =
     Inr (''GpioPinA'', ''0x0300'') \<and>
   ''GpioPinA'' \<noteq> [] \<and> ''0x0300'' \<noteq> [] \<and>
   (isalpha (CHR ''G'') \<or> isdigit (CHR ''G'') \<or> isnumeric (CHR ''G'') \<or> CHR ''G'' = CHR ''_'') \<and>
   (isalpha (CHR ''0'') \<or> isdigit (CHR ''0'') \<or> isnumeric (CHR ''0'') \<or> CHR ''0'' = CHR ''_'')"
proof -
  have e: "extract_macro_parameters_xreg0 ''X_REG0!(GpioPinA, 0x0300);\<newline>'' =
      Inr (''GpioPinA'', ''0x0300'')"
    unfolding extract_macro_parameters_xreg0_def
    using re_match_complete [OF GpioPinA_matches] by simp
  show ?thesis
    using e extracted_tokens_are_words [OF disjI1, OF e] by simp
qed



section \<open>Claims about the mask calculator\<close>

text \<open>
  Claim C2 as stated, with the value \<open>0x1446\<close> for the command-interrupt mask, does
  not hold: \<open>0x1446\<close> lacks the bit at position 8.
\<close>

theorem cmd_mask_not_0x1446: "FSDIF_INTS_CMD_MASK \<noteq> 0x1446"
  by code_simp

text \<open>
  Claim C2, as amended. The command-interrupt mask of the calculator is the bitwise OR of
  the six bit constants at the positions 1 (response error), 2 (command done), 6
  (response CRC error), 8 (response timeout), 10 (header timeout) and 12 (hardware locked
  error), and its value is \<open>0x1546\<close>, which is \<open>0x1446\<close> with the bit at
  position 8 added.
\<close>

theorem cmd_mask_value:
  "FSDIF_INT_RE_BIT = 2 ^ 1 \<and> FSDIF_INT_CMD_BIT = 2 ^ 2 \<and> FSDIF_INT_RCRC_BIT = 2 ^ 6 \<and>
   FSDIF_INT_RTO_BIT = 2 ^ 8 \<and> FSDIF_INT_HTO_BIT = 2 ^ 10 \<and> FSDIF_INT_HLE_BIT = 2 ^ 12 \<and>
   FSDIF_INTS_CMD_MASK = 2 ^ 1 OR 2 ^ 2 OR 2 ^ 6 OR 2 ^ 8 OR 2 ^ 10 OR 2 ^ 12 \<and>
   FSDIF_INTS_CMD_MASK = 0x1546 \<and>
   FSDIF_INTS_CMD_MASK = 0x1446 OR 2 ^ 8"
  by code_simp

section \<open>Claims about the two scenarios\<close>

text \<open>
  Claim C5. For the input line \<open>X_REG0!(GpioPinA, 0x0300);\<close> variant A prints one
  block and ends without error. The block declares the bit-flag type \<open>GpioPinA\<close>,
  binds it to the register address \<open>0x0300\<close> in its \<open>FlagReg\<close> part, and declares
  exactly the 12 constants \<open>PULL_MASK\<close>, \<open>DRIVE_MASK\<close>, \<open>FUNC_MASK\<close>,
  \<open>FUNC_BIT0\<close> to \<open>FUNC_BIT2\<close>, \<open>DRIVE_BIT0\<close> to \<open>DRIVE_BIT3\<close> and
  \<open>PULL_BIT0\<close>, \<open>PULL_BIT1\<close> with their values, among them
  \<open>PULL_BIT0 = 1 << 8\<close>; the last part gives the bit positions of each value.
\<close>

theorem xreg0_GpioPinA_block:
  "main_xreg0 ''X_REG0!(GpioPinA, 0x0300);\<newline>'' =
     (generate_code_xreg0 ''GpioPinA'' ''0x0300'' @ ''\<newline>'', None) \<and>
   lines_of (generate_code_xreg0 ''GpioPinA'' ''0x0300'') =
     [''bitflags! {'',
      ''    struct GpioPinA: u32 {'',
      ''        const PULL_MASK = genmask!(9, 8);'',
      ''        const DRIVE_MASK = genmask!(7, 4);'',
      ''        const FUNC_MASK = genmask!(2, 0);'',
      ''        const FUNC_BIT0 = 1 << 0;'',
      ''        const FUNC_BIT1 = 1 << 1;'',
      ''        const FUNC_BIT2 = 1 << 2;'',
      ''        const DRIVE_BIT0 = 1 << 4;'',
      ''        const DRIVE_BIT1 = 1 << 5;'',
      ''        const DRIVE_BIT2 = 1 << 6;'',
      ''        const DRIVE_BIT3 = 1 << 7;'',
      ''        const PULL_BIT0 = 1 << 8;'',
      ''        const PULL_BIT1 = 1 << 9;'',
      ''    }'',
      ''}'',
      '''',
      ''impl FlagReg for GpioPinA {'',
      ''    const REG: u32 = 0x0300;'',
      ''}'',
      '''',
      ''impl From<u32> for GpioPinA {'',
      ''    fn from(x: u32) -> Self {'',
      ''        Self::from_bits_truncate(x)'',
      ''    }'',
      ''}'',
      '''',
      ''impl Into<u32> for GpioPinA {'',
      ''    fn into(self) -> u32 {'',
      ''        self.bits()'',
      ''    }'',
      ''}'',
      '''',
      ''impl XReg0 for GpioPinA {'',
      '''',
      ''}''] \<and>
   bitflag_consts (generate_code_xreg0 ''GpioPinA'' ''0x0300'') =
     [(''PULL_MASK'', ''genmask!(9, 8)''), (''DRIVE_MASK'', ''genmask!(7, 4)''),
      (''FUNC_MASK'', ''genmask!(2, 0)''), (''FUNC_BIT0'', ''1 << 0''),
      (''FUNC_BIT1'', ''1 << 1''), (''FUNC_BIT2'', ''1 << 2''),
      (''DRIVE_BIT0'', ''1 << 4''), (''DRIVE_BIT1'', ''1 << 5''),
      (''DRIVE_BIT2'', ''1 << 6''), (''DRIVE_BIT3'', ''1 << 7''),
      (''PULL_BIT0'', ''1 << 8''), (''PULL_BIT1'', ''1 << 9'')] \<and>
   length (bitflag_consts (generate_code_xreg0 ''GpioPinA'' ''0x0300'')) = 12 \<and>
   map (value_bits \<circ> snd) (bitflag_consts (generate_code_xreg0 ''GpioPinA'' ''0x0300'')) =
     [Some [8, 9], Some [4, 5, 6, 7], Some [0, 1, 2], Some [0], Some [1], Some [2],
      Some [4], Some [5], Some [6], Some [7], Some [8], Some [9]]"
proof (intro conjI)
  show "main_xreg0 ''X_REG0!(GpioPinA, 0x0300);\<newline>'' =
      (generate_code_xreg0 ''GpioPinA'' ''0x0300'' @ ''\<newline>'', None)"
    by (rule main_xreg0_single [OF GpioPinA_matches readline_GpioPinA])
  show "length (bitflag_consts (generate_code_xreg0 ''GpioPinA'' ''0x0300'')) = 12"
    unfolding GpioPinA_consts by simp
  show "map (value_bits \<circ> snd) (bitflag_consts (generate_code_xreg0 ''GpioPinA'' ''0x0300'')) =
     [Some [8, 9], Some [4, 5, 6, 7], Some [0, 1, 2], Some [0], Some [1], Some [2],
      Some [4], Some [5], Some [6], Some [7], Some [8], Some [9]]"
    unfolding GpioPinA_consts by (rule GpioPinA_bits)
qed (rule GpioPinA_lines GpioPinA_consts)+

text \<open>
  Claim C3 as stated, with 16 named bit constants in the block of variant B, does not
  hold: the block declares 18 constants.
\<close>

theorem xreg1_GpioDelay3_not_16_consts:
  "length (bitflag_consts (generate_code_xreg1 ''GpioDelay3'' ''0x40'')) \<noteq> 16"
  unfolding GpioDelay3_consts by simp

text \<open>
  Claim C3, as amended. For the input line \<open>X_REG1!(GpioDelay3, 0x40);\<close> variant B
  prints one block and ends without error. The block declares the bit-flag type
  \<open>GpioDelay3\<close>, binds it to the address \<open>0x40\<close>, and declares 18 named constants:
  for the output-delay group and for the input-delay group an enable bit, the mask and
  the three bits of the delicate subfield, and the mask and the three bits of the rough
  subfield. That is 14 constants of one bit and 4 masks of three bits, and the positions
  they use are 0 to 6 and 8 to 14.
\<close>

theorem xreg1_GpioDelay3_block:
  "main_xreg1 ''X_REG1!(GpioDelay3, 0x40);\<newline>'' =
     (generate_code_xreg1 ''GpioDelay3'' ''0x40'' @ ''\<newline>'', None) \<and>
   lines_of (generate_code_xreg1 ''GpioDelay3'' ''0x40'') =
     [''bitflags! {'',
      ''    struct GpioDelay3: u32 {'',
      ''        const OUT_DELAY_EN = 1 << 8;'',
      ''        const OUT_DELAY_DELICATE_MASK = genmask!(11,9);'',
      ''        const OUT_DELAY_DELICATE_BIT0 = 1 << 9;'',
      ''        const OUT_DELAY_DELICATE_BIT1 = 1 << 10;'',
      ''        const OUT_DELAY_DELICATE_BIT2 = 1 << 11;'',
      ''        const OUT_DELAY_ROUGH_MASK = genmask!(14,12);'',
      ''        const OUT_DELAY_ROUGH_BIT0 = 1 << 12;'',
      ''        const OUT_DELAY_ROUGH_BIT1 = 1 << 13;'',
      ''        const OUT_DELAY_ROUGH_BIT2 = 1 << 14;'',
      ''        const IN_DELAY_EN = 1 << 0;'',
      ''        const IN_DELAY_DELICATE_MASK = genmask!(3,1);'',
      ''        const IN_DELAY_DELICATE_BIT0 = 1 << 1;'',
      ''        const IN_DELAY_DELICATE_BIT1 = 1 << 2;'',
      ''        const IN_DELAY_DELICATE_BIT2 = 1 << 3;'',
      ''        const IN_DELAY_ROUGH_MASK = genmask!(6,4);'',
      ''        const IN_DELAY_ROUGH_BIT0 = 1 << 4;'',
      ''        const IN_DELAY_ROUGH_BIT1 = 1 << 5;'',
      ''        const IN_DELAY_ROUGH_BIT2 = 1 << 6;'',
      ''    }'',
      ''}'',
      '''',
      ''impl FlagReg for GpioDelay3 {'',
      ''    const REG: u32 = 0x40;'',
      ''}'',
      '''',
      ''impl From<u32> for GpioDelay3 {'',
      ''    fn from(x: u32) -> Self {'',
      ''        Self::from_bits_truncate(x)'',
      ''    }'',
      ''}'',
      '''',
      ''impl Into<u32> for GpioDelay3 {'',
      ''    fn into(self) -> u32 {'',
      ''        self.bits()'',
      ''    }'',
      ''}'',
      '''',
      ''impl XReg1 for GpioDelay3 {'',
      '''',
      ''}''] \<and>
   bitflag_consts (generate_code_xreg1 ''GpioDelay3'' ''0x40'') =
     [(''OUT_DELAY_EN'', ''1 << 8''),
      (''OUT_DELAY_DELICATE_MASK'', ''genmask!(11,9)''),
      (''OUT_DELAY_DELICATE_BIT0'', ''1 << 9''),
      (''OUT_DELAY_DELICATE_BIT1'', ''1 << 10''),
      (''OUT_DELAY_DELICATE_BIT2'', ''1 << 11''),
      (''OUT_DELAY_ROUGH_MASK'', ''genmask!(14,12)''),
      (''OUT_DELAY_ROUGH_BIT0'', ''1 << 12''),
      (''OUT_DELAY_ROUGH_BIT1'', ''1 << 13''),
      (''OUT_DELAY_ROUGH_BIT2'', ''1 << 14''),
      (''IN_DELAY_EN'', ''1 << 0''),
      (''IN_DELAY_DELICATE_MASK'', ''genmask!(3,1)''),
      (''IN_DELAY_DELICATE_BIT0'', ''1 << 1''),
      (''IN_DELAY_DELICATE_BIT1'', ''1 << 2''),
      (''IN_DELAY_DELICATE_BIT2'', ''1 << 3''),
      (''IN_DELAY_ROUGH_MASK'', ''genmask!(6,4)''),
      (''IN_DELAY_ROUGH_BIT0'', ''1 << 4''),
      (''IN_DELAY_ROUGH_BIT1'', ''1 << 5''),
      (''IN_DELAY_ROUGH_BIT2'', ''1 << 6'')] \<and>
   length (bitflag_consts (generate_code_xreg1 ''GpioDelay3'' ''0x40'')) = 18 \<and>
   map (value_bits \<circ> snd) (bitflag_consts (generate_code_xreg1 ''GpioDelay3'' ''0x40'')) =
     [Some [8], Some [9, 10, 11], Some [9], Some [10], Some [11],
      Some [12, 13, 14], Some [12], Some [13], Some [14],
      Some [0], Some [1, 2, 3], Some [1], Some [2], Some [3],
      Some [4, 5, 6], Some [4], Some [5], Some [6]] \<and>
   length (filter (\<lambda>b. map_option length b = Some 1)
     (map (value_bits \<circ> snd) (bitflag_consts (generate_code_xreg1 ''GpioDelay3'' ''0x40'')))) = 14 \<and>
   length (filter (\<lambda>b. map_option length b = Some 3)
     (map (value_bits \<circ> snd) (bitflag_consts (generate_code_xreg1 ''GpioDelay3'' ''0x40'')))) = 4 \<and>
   sort (remdups (concat (List.map_filter id
     (map (value_bits \<circ> snd) (bitflag_consts (generate_code_xreg1 ''GpioDelay3'' ''0x40'')))))) =
     [0, 1, 2, 3, 4, 5, 6, 8, 9, 10, 11, 12, 13, 14]"
proof (intro conjI)
  show "main_xreg1 ''X_REG1!(GpioDelay3, 0x40);\<newline>'' =
      (generate_code_xreg1 ''GpioDelay3'' ''0x40'' @ ''\<newline>'', None)"
    by (rule main_xreg1_single [OF GpioDelay3_matches readline_GpioDelay3])
  show "length (bitflag_consts (generate_code_xreg1 ''GpioDelay3'' ''0x40'')) = 18"
    unfolding GpioDelay3_consts by simp
  show "map (value_bits \<circ> snd) (bitflag_consts (generate_code_xreg1 ''GpioDelay3'' ''0x40'')) =
     [Some [8], Some [9, 10, 11], Some [9], Some [10], Some [11],
      Some [12, 13, 14], Some [12], Some [13], Some [14],
      Some [0], Some [1, 2, 3], Some [1], Some [2], Some [3],
      Some [4, 5, 6], Some [4], Some [5], Some [6]]"
    unfolding GpioDelay3_consts by (rule GpioDelay3_bits)
  show "length (filter (\<lambda>b. map_option length b = Some 1)
     (map (value_bits \<circ> snd) (bitflag_consts (generate_code_xreg1 ''GpioDelay3'' ''0x40'')))) = 14"
    unfolding GpioDelay3_consts GpioDelay3_bits by (rule GpioDelay3_positions)
  show "length (filter (\<lambda>b. map_option length b = Some 3)
     (map (value_bits \<circ> snd) (bitflag_consts (generate_code_xreg1 ''GpioDelay3'' ''0x40'')))) = 4"
    unfolding GpioDelay3_consts GpioDelay3_bits by (rule GpioDelay3_positions)
  show "sort (remdups (concat (List.map_filter id
     (map (value_bits \<circ> snd) (bitflag_consts (generate_code_xreg1 ''GpioDelay3'' ''0x40'')))))) =
     [0, 1, 2, 3, 4, 5, 6, 8, 9, 10, 11, 12, 13, 14]"
    unfolding GpioDelay3_consts GpioDelay3_bits by (rule GpioDelay3_positions)
qed (rule GpioDelay3_lines GpioDelay3_consts)+

section \<open>What the calculator prints\<close>

lemma mask_numerals:
  "FSDIF_INTS_CMD_MASK = 5446" "FSDIF_INTS_DATA_MASK = 8840" "FSDIF_DMAC_INTS_MASK = 788"
  by code_simp+

lemma hex_digits_masks:
  "hex_digits 5446 = ''1546''" "hex_digits 8840 = ''2288''" "hex_digits 788 = ''314''"
  by (simp_all add: hex_digits.simps)

lemma format_hex_masks:
  "format_hex FSDIF_INTS_CMD_MASK = ''0x1546''"
  "format_hex FSDIF_INTS_DATA_MASK = ''0x2288''"
  "format_hex FSDIF_DMAC_INTS_MASK = ''0x314''"
  by (simp_all add: format_hex_def mask_numerals hex_digits_masks)

lemma main_temp_text: "main_temp = ''FSDIF_DMAC_INTS_MASK: 0x314\<newline>''"
  by (simp add: main_temp_def dmac_int_ena_def print_def format_hex_masks)

lemma output_int_mask_text:
  "output_int_mask [] =
     ''FSDIF_INTS_CMD_MASK: 0x1546\<newline>FSDIF_INTS_DATA_MASK: 0x2288\<newline>''"
  by (simp add: output_int_mask_def print_def format_hex_masks)

lemma main_temp_lines: "lines_of main_temp = [''FSDIF_DMAC_INTS_MASK: 0x314'']"
  unfolding main_temp_text by code_simp

lemma output_int_mask_lines:
  "lines_of (output_int_mask []) =
     [''FSDIF_INTS_CMD_MASK: 0x1546'', ''FSDIF_INTS_DATA_MASK: 0x2288'']"
  unfolding output_int_mask_text by code_simp

lemma mask_lines_ok:
  "is_mask_line ''FSDIF_DMAC_INTS_MASK: 0x314''"
  "is_mask_line ''FSDIF_INTS_CMD_MASK: 0x1546''"
  "is_mask_line ''FSDIF_INTS_DATA_MASK: 0x2288''"
  by code_simp+

text \<open>
  Claim C6. The data-interrupt mask of the calculator is the bitwise OR of the bit
  constants at the positions 3, 7, 9 and 13 and equals \<open>0x2288\<close>; the mask of the DMA
  controller is the bitwise OR of the bit constants at the positions 2, 4, 8 and 9 and
  equals \<open>0x314\<close>.
\<close>

theorem data_and_dma_mask_values:
  "FSDIF_INT_DTO_BIT = 2 ^ 3 \<and> FSDIF_INT_DCRC_BIT = 2 ^ 7 \<and> FSDIF_INT_DRTO_BIT = 2 ^ 9 \<and>
   FSDIF_INT_SBE_BCI_BIT = 2 ^ 13 \<and>
   FSDIF_INTS_DATA_MASK = 2 ^ 3 OR 2 ^ 7 OR 2 ^ 9 OR 2 ^ 13 \<and>
   FSDIF_INTS_DATA_MASK = 0x2288 \<and>
   FSDIF_DMAC_INT_ENA_FBE = 2 ^ 2 \<and> FSDIF_DMAC_INT_ENA_DU = 2 ^ 4 \<and>
   FSDIF_DMAC_INT_ENA_NIS = 2 ^ 8 \<and> FSDIF_DMAC_INT_ENA_AIS = 2 ^ 9 \<and>
   FSDIF_DMAC_INTS_MASK = 2 ^ 2 OR 2 ^ 4 OR 2 ^ 8 OR 2 ^ 9 \<and>
   FSDIF_DMAC_INTS_MASK = 0x314"
  by code_simp

text \<open>
  Claim C7 as stated, with two or more printed lines, does not hold: the main block calls
  \<open>dmac_int_ena\<close> only, and the program prints one line.
\<close>

theorem main_temp_not_two_lines: "\<not> 2 \<le> length (lines_of main_temp)"
  unfolding main_temp_lines by simp

text \<open>
  Claim C7, as amended. When the mask calculator runs as a program, it prints exactly one
  line, \<open>FSDIF_DMAC_INTS_MASK: 0x314\<close>, of the form \<open><LABEL>: <hex-value>\<close> where
  the value has the prefix \<open>0x\<close>, lowercase hexadecimal digits and no padding. The
  routine \<open>output_int_mask\<close>, which the main block does not call, prints two lines of
  the same form when it is called.
\<close>

theorem main_temp_prints_one_line:
  "main_temp = ''FSDIF_DMAC_INTS_MASK: 0x314\<newline>'' \<and>
   lines_of main_temp = [''FSDIF_DMAC_INTS_MASK: 0x314''] \<and>
   length (lines_of main_temp) = 1 \<and>
   list_all is_mask_line (lines_of main_temp) \<and>
   lines_of (output_int_mask []) =
     [''FSDIF_INTS_CMD_MASK: 0x1546'', ''FSDIF_INTS_DATA_MASK: 0x2288''] \<and>
   list_all is_mask_line (lines_of (output_int_mask []))"
  unfolding main_temp_lines output_int_mask_lines
  using main_temp_text mask_lines_ok by simp

theorem main_temp_prints_one_line_witness:
  "lines_of main_temp = [''FSDIF_DMAC_INTS_MASK: 0x314''] \<and>
   is_mask_line ''FSDIF_DMAC_INTS_MASK: 0x314''"
proof -
  have l: "lines_of main_temp = [''FSDIF_DMAC_INTS_MASK: 0x314'']"
    and a: "list_all is_mask_line (lines_of main_temp)"
    using main_temp_prints_one_line by blast+
  from a show ?thesis unfolding l by simp
qed

end
